theory Spec2Isabelle
  imports Main
begin

section \<open>The chat application \<^verbatim>\<open>capstone.py\<close> as a function of one script run\<close>

text \<open>
  The program is a Streamlit script: the framework executes the whole file from top to
  bottom once per user interaction. Two pieces of state outlive a run: the per-session
  dictionary \<^verbatim>\<open>st.session_state\<close> and the process-wide table behind
  \<^verbatim>\<open>@st.cache_resource\<close>. Everything else the script touches is outside the
  repository: the process environment, the \<^verbatim>\<open>AzureOpenAI\<close> constructor and the
  completion call. These are collected in the record \<open>world\<close> and passed in, so the
  theorems hold for every behaviour of the outside.
\<close>

subsection \<open>Data\<close>

text \<open>A message is the dictionary \<^verbatim>\<open>{"role": ..., "content": ...}\<close>.\<close>

record message =
  role :: string
  content :: string

text \<open>
  \<^verbatim>\<open>st.session_state\<close> with its two keys; \<open>None\<close> is "key not in the dictionary".
\<close>

record session_state =
  messages :: "message list option"
  chat_history :: "message list option"

text \<open>Dictionary and list literals handed to the SDK, with the keys as the code writes them.\<close>

datatype json = JNull | JStr string | JList "json list" | JObj "(string \<times> json) list"

text \<open>The keyword arguments of \<^verbatim>\<open>chat_client.chat.completions.create\<close>.\<close>

record request =
  model :: "string option"
  req_messages :: "message list"
  extra_body :: json

text \<open>The keyword arguments of the \<^verbatim>\<open>AzureOpenAI\<close> constructor.\<close>

record client_args =
  api_version :: string
  azure_endpoint :: string
  api_key :: string

text \<open>A client object is known by its identity only.\<close>

type_synonym handle = nat

text \<open>
  The outside of the script. \<open>getenv\<close> is \<^verbatim>\<open>os.getenv\<close> at the time of the run.
  \<open>AzureOpenAI\<close> either raises (\<open>Inl\<close> of \<^verbatim>\<open>str(e)\<close>) or returns a client.
  \<open>create\<close> either raises (\<open>Inl\<close> of \<^verbatim>\<open>str(e)\<close>) or returns a response, of which
  the script reads only \<^verbatim>\<open>choices[i].message.content\<close>: the list of these contents.
\<close>

record world =
  getenv :: "string \<Rightarrow> string option"
  AzureOpenAI :: "client_args \<Rightarrow> string + handle"
  create :: "handle \<Rightarrow> request \<Rightarrow> string + string list"

text \<open>
  What a run puts on the page, in order. Only the elements that carry data are recorded:
  error boxes, success boxes and chat bubbles (role, text). Page configuration, titles,
  dividers, the footer and the labels of the input widgets are constant and left out.
\<close>

datatype element = StError string | StSuccess string | StChatMessage string string

text \<open>The values the input widgets return in a run.\<close>

record widgets =
  clear_button :: bool
  chat_input :: "string option"
  link_button :: bool

text \<open>
  How a run ends: it reaches the last line, it calls \<^verbatim>\<open>st.stop()\<close>, or it calls
  \<^verbatim>\<open>st.rerun()\<close> (the framework then starts a fresh run with no widget fired).
\<close>

datatype outcome = Completed | Stopped | Rerun

text \<open>
  The table of \<^verbatim>\<open>@st.cache_resource\<close> for the one decorated function, which takes
  no argument: empty, or the value the body returned together with the elements it
  drew, which the framework draws again on every later call.
\<close>

type_synonym resource_cache = "(element list \<times> handle option) option"

record run_result =
  state :: session_state
  cache :: resource_cache
  elements :: "element list"
  requests :: "(handle \<times> request) list"
  outcome :: outcome

subsection \<open>Truthiness of an environment value\<close>

text \<open>Python's \<^verbatim>\<open>if value\<close> on the result of \<^verbatim>\<open>os.getenv\<close>: false for \<^verbatim>\<open>None\<close> and for the empty string.\<close>

definition truthy :: "string option \<Rightarrow> bool" where
  "truthy v = (case v of None \<Rightarrow> False | Some s \<Rightarrow> s \<noteq> [])"

definition json_of :: "string option \<Rightarrow> json" where
  "json_of v = (case v of None \<Rightarrow> JNull | Some s \<Rightarrow> JStr s)"

subsection \<open>Client initialisation (lines 16 to 35)\<close>

definition initialize_azure_client_body :: "world \<Rightarrow> element list \<times> handle option" where
  "initialize_azure_client_body w =
     (let open_ai_endpoint = getenv w ''OPEN_AI_ENDPOINT'';
          open_ai_key = getenv w ''OPEN_AI_KEY''
      in case (open_ai_endpoint, open_ai_key) of
           (Some e, Some k) \<Rightarrow>
             if e = [] \<or> k = [] then
               ([StError ''Missing Azure OpenAI configuration. Please check your .env file.''], None)
             else
               (case AzureOpenAI w \<lparr>api_version = ''2024-12-01-preview'',
                                     azure_endpoint = e, api_key = k\<rparr> of
                  Inl err \<Rightarrow> ([StError (''Failed to initialize Azure client: '' @ err)], None)
                | Inr client \<Rightarrow> ([], Some client))
         | _ \<Rightarrow>
             ([StError ''Missing Azure OpenAI configuration. Please check your .env file.''], None))"

text \<open>The decorated function: the body runs only when the table is empty.\<close>

definition initialize_azure_client ::
  "world \<Rightarrow> resource_cache \<Rightarrow> element list \<times> handle option \<times> resource_cache" where
  "initialize_azure_client w c =
     (case c of
        Some (els, r) \<Rightarrow> (els, r, c)
      | None \<Rightarrow> (let (els, r) = initialize_azure_client_body w in (els, r, Some (els, r))))"

subsection \<open>The completion call (lines 37 to 79)\<close>

definition rag_params :: "world \<Rightarrow> json" where
  "rag_params w =
     (let embedding_model = getenv w ''EMBEDDING_MODEL'';
          search_url = getenv w ''SEARCH_ENDPOINT'';
          search_key = getenv w ''SEARCH_KEY'';
          index_name = getenv w ''INDEX_NAME''
      in JObj [(''data_sources'', JList [
           JObj [(''type'', JStr ''azure_search''),
                 (''parameters'', JObj [
                    (''endpoint'', json_of search_url),
                    (''index_name'', json_of index_name),
                    (''authentication'', JObj [
                       (''type'', JStr ''api_key''),
                       (''key'', json_of search_key)]),
                    (''query_type'', JStr ''vector''),
                    (''embedding_dependency'', JObj [
                       (''type'', JStr ''deployment_name''),
                       (''deployment_name'', json_of embedding_model)])])]])])"

text \<open>
  Returns the request it issued and the string it returns. Every exception inside the
  \<^verbatim>\<open>try\<close> becomes the string \<^verbatim>\<open>"Error: " + str(e)\<close>; an empty \<^verbatim>\<open>choices\<close>
  makes \<^verbatim>\<open>choices[0]\<close> raise \<^verbatim>\<open>IndexError\<close>, caught the same way.
\<close>

definition get_rag_response :: "world \<Rightarrow> handle \<Rightarrow> message list \<Rightarrow> request \<times> string" where
  "get_rag_response w chat_client msgs =
     (let chat_model = getenv w ''CHAT_MODEL'';
          req = \<lparr>model = chat_model, req_messages = msgs, extra_body = rag_params w\<rparr>
      in (req,
          case create w chat_client req of
            Inl err \<Rightarrow> ''Error: '' @ err
          | Inr [] \<Rightarrow> ''Error: list index out of range''
          | Inr (c # _) \<Rightarrow> c))"

subsection \<open>Session state (lines 82 to 88, 104 to 109)\<close>

definition initial_system_message :: message where
  "initial_system_message =
     \<lparr>role = ''system'',
      content = ''you are an expert on my history and the projects i have worked on.''\<rparr>"

definition clear_system_message :: message where
  "clear_system_message =
     \<lparr>role = ''system'',
      content = ''You are a travel assistant that provides information on travel services available from Margie'' @ [CHR 0x27] @ ''s Travel.''\<rparr>"

definition init_messages :: "session_state \<Rightarrow> message list" where
  "init_messages s = (case messages s of None \<Rightarrow> [initial_system_message] | Some m \<Rightarrow> m)"

definition init_chat_history :: "session_state \<Rightarrow> message list" where
  "init_chat_history s = (case chat_history s of None \<Rightarrow> [] | Some h \<Rightarrow> h)"

definition new_session :: session_state where
  "new_session = \<lparr>messages = None, chat_history = None\<rparr>"

subsection \<open>The configuration status panel (lines 118 to 130)\<close>

definition config_items :: "world \<Rightarrow> (string \<times> string option) list" where
  "config_items w =
     [(''Azure OpenAI Endpoint'', getenv w ''OPEN_AI_ENDPOINT''),
      (''Chat Model'', getenv w ''CHAT_MODEL''),
      (''Embedding Model'', getenv w ''EMBEDDING_MODEL''),
      (''Search Endpoint'', getenv w ''SEARCH_ENDPOINT''),
      (''Index Name'', getenv w ''INDEX_NAME'')]"

text \<open>The two marks are the UTF-8 bytes of U+2705 and U+274C, each followed by a space.\<close>

definition check_mark :: string where
  "check_mark = [CHR 0xE2, CHR 0x9C, CHR 0x85, CHR 0x20]"

definition cross_mark :: string where
  "cross_mark = [CHR 0xE2, CHR 0x9D, CHR 0x8C, CHR 0x20]"

definition status_line :: "string \<times> string option \<Rightarrow> element" where
  "status_line iv =
     (case iv of (item, v) \<Rightarrow>
        if truthy v then StSuccess (check_mark @ item) else StError (cross_mark @ item))"

definition config_status :: "world \<Rightarrow> element list" where
  "config_status w = map status_line (config_items w)"

subsection \<open>One run of the script\<close>

definition user_message :: "string \<Rightarrow> message" where
  "user_message p = \<lparr>role = ''user'', content = p\<rparr>"

definition assistant_message :: "string \<Rightarrow> message" where
  "assistant_message p = \<lparr>role = ''assistant'', content = p\<rparr>"

definition show_history :: "message list \<Rightarrow> element list" where
  "show_history h = map (\<lambda>m. StChatMessage (role m) (content m)) h"

text \<open>Lines 165 to 181: with an empty history the link button is drawn, and a true value reruns.\<close>

definition footer_outcome :: "widgets \<Rightarrow> message list \<Rightarrow> outcome" where
  "footer_outcome wd h = (if length h = 0 \<and> link_button wd then Rerun else Completed)"

definition script_run :: "world \<Rightarrow> widgets \<Rightarrow> resource_cache \<Rightarrow> session_state \<Rightarrow> run_result" where
  "script_run w wd c s =
     (let m0 = init_messages s;
          h0 = init_chat_history s;
          (els0, chat_client, c') = initialize_azure_client w c
      in case chat_client of
           None \<Rightarrow>
             \<lparr>state = \<lparr>messages = Some m0, chat_history = Some h0\<rparr>, cache = c',
              elements = els0, requests = [], outcome = Stopped\<rparr>
         | Some client \<Rightarrow>
             if clear_button wd then
               \<lparr>state = \<lparr>messages = Some [clear_system_message], chat_history = Some []\<rparr>,
                cache = c', elements = els0, requests = [], outcome = Rerun\<rparr>
             else
               (let els1 = els0 @ config_status w @ show_history h0
                in case chat_input wd of
                     Some prompt \<Rightarrow>
                       if prompt = [] then
                         \<lparr>state = \<lparr>messages = Some m0, chat_history = Some h0\<rparr>, cache = c',
                          elements = els1, requests = [], outcome = footer_outcome wd h0\<rparr>
                       else
                         (let h1 = h0 @ [user_message prompt];
                              m1 = m0 @ [user_message prompt];
                              (req, response) = get_rag_response w client m1;
                              h2 = h1 @ [assistant_message response];
                              m2 = m1 @ [assistant_message response]
                          in \<lparr>state = \<lparr>messages = Some m2, chat_history = Some h2\<rparr>,
                              cache = c',
                              elements = els1 @ [StChatMessage ''user'' prompt,
                                                 StChatMessage ''assistant'' response],
                              requests = [(client, req)],
                              outcome = footer_outcome wd h2\<rparr>)
                   | None \<Rightarrow>
                       \<lparr>state = \<lparr>messages = Some m0, chat_history = Some h0\<rparr>, cache = c',
                        elements = els1, requests = [], outcome = footer_outcome wd h0\<rparr>))"

text \<open>
  A session: the framework runs the script once per interaction, carrying the session
  state and the resource table from one run to the next.
\<close>

fun session_runs ::
  "resource_cache \<Rightarrow> session_state \<Rightarrow> (world \<times> widgets) list \<Rightarrow> run_result list" where
  "session_runs c s [] = []"
| "session_runs c s ((w, wd) # rest) =
     (let r = script_run w wd c s in r # session_runs (cache r) (state r) rest)"


subsection \<open>Sample inputs\<close>

text \<open>A fully configured environment, a service that always answers, and the widget values.\<close>

definition sample_env :: "string \<Rightarrow> string option" where
  "sample_env =
     [''OPEN_AI_ENDPOINT'' \<mapsto> ''https://example.openai.azure.com'',
      ''OPEN_AI_KEY'' \<mapsto> ''key-1'',
      ''CHAT_MODEL'' \<mapsto> ''gpt-4o'',
      ''EMBEDDING_MODEL'' \<mapsto> ''text-embedding-ada-002'',
      ''SEARCH_ENDPOINT'' \<mapsto> ''https://example.search.windows.net'',
      ''SEARCH_KEY'' \<mapsto> ''key-2'',
      ''INDEX_NAME'' \<mapsto> ''projects'']"

definition sample_world :: world where
  "sample_world =
     \<lparr>getenv = sample_env, AzureOpenAI = (\<lambda>_. Inr 7), create = (\<lambda>_ _. Inr [''fine''])\<rparr>"

definition no_widgets :: widgets where
  "no_widgets = \<lparr>clear_button = False, chat_input = None, link_button = False\<rparr>"

definition clear_widgets :: widgets where
  "clear_widgets = \<lparr>clear_button = True, chat_input = None, link_button = False\<rparr>"

definition turn_widgets :: "string \<Rightarrow> widgets" where
  "turn_widgets p = \<lparr>clear_button = False, chat_input = Some p, link_button = False\<rparr>"

definition timeout_world :: world where
  "timeout_world = sample_world\<lparr>create := (\<lambda>_ _. Inl ''timeout'')\<rparr>"

definition no_endpoint_world :: world where
  "no_endpoint_world = sample_world\<lparr>getenv := sample_env(''OPEN_AI_ENDPOINT'' := None)\<rparr>"

definition no_key_world :: world where
  "no_key_world = sample_world\<lparr>getenv := sample_env(''OPEN_AI_KEY'' := None)\<rparr>"

definition no_keys_world :: world where
  "no_keys_world =
     sample_world\<lparr>getenv := sample_env(''OPEN_AI_KEY'' := None, ''SEARCH_KEY'' := None)\<rparr>"

definition other_model_world :: world where
  "other_model_world =
     sample_world\<lparr>getenv := sample_env(''CHAT_MODEL'' \<mapsto> ''gpt-35-turbo'')\<rparr>"

subsection \<open>Vocabulary of the statements\<close>

text \<open>The error box of line 24.\<close>

definition missing_configuration :: element where
  "missing_configuration =
     StError ''Missing Azure OpenAI configuration. Please check your .env file.''"

text \<open>The environment variables behind the five entries of \<open>config_items\<close>, in order.\<close>

definition status_vars :: "string list" where
  "status_vars =
     [''OPEN_AI_ENDPOINT'', ''CHAT_MODEL'', ''EMBEDDING_MODEL'', ''SEARCH_ENDPOINT'',
      ''INDEX_NAME'']"

fun is_success :: "element \<Rightarrow> bool" where
  "is_success (StSuccess _) = True"
| "is_success _ = False"


text \<open>
  The reply of a turn in the words of the specification: the completion service is
  asked once, with the chat model, the given message sequence in full and the
  retrieval block; the top reply text is the reply, and any failure becomes the text
  \<^verbatim>\<open>"Error: "\<close> followed by its message.
\<close>

definition service_reply :: "world \<Rightarrow> handle \<Rightarrow> message list \<Rightarrow> string" where
  "service_reply w h msgs =
     (case create w h \<lparr>model = getenv w ''CHAT_MODEL'', req_messages = msgs,
                       extra_body = rag_params w\<rparr> of
        Inl err \<Rightarrow> ''Error: '' @ err
      | Inr [] \<Rightarrow> ''Error: list index out of range''
      | Inr (c # _) \<Rightarrow> c)"

text \<open>
  The accumulated history in the words of the specification, over runs none of which
  clears: a run with a non-empty input appends the user message and then the reply of
  the service to everything up to that user message; any other run appends nothing.
\<close>

definition after_run :: "handle \<Rightarrow> message list \<Rightarrow> world \<times> widgets \<Rightarrow> message list" where
  "after_run h acc run =
     (case run of (w, wd) \<Rightarrow>
        (case chat_input wd of
           None \<Rightarrow> acc
         | Some p \<Rightarrow>
             if p = [] then acc
             else acc @ [user_message p,
                         assistant_message (service_reply w h (acc @ [user_message p]))]))"

definition accumulated ::
  "handle \<Rightarrow> message list \<Rightarrow> (world \<times> widgets) list \<Rightarrow> message list" where
  "accumulated h acc runs = foldl (after_run h) acc runs"


text \<open>
  The two lists of the session are in lockstep: both keys are present, the API
  sequence is one longer than the displayed history, and no displayed message has
  the system role.
\<close>

definition lockstep :: "session_state \<Rightarrow> bool" where
  "lockstep s =
     (case (messages s, chat_history s) of
        (Some m, Some h) \<Rightarrow>
          length m = length h + 1 \<and> list_all (\<lambda>x. role x \<noteq> ''system'') h
      | _ \<Rightarrow> False)"

text \<open>Reading a dictionary literal: one key, and a chain of keys.\<close>

fun json_field :: "string \<Rightarrow> json \<Rightarrow> json option" where
  "json_field k (JObj kvs) = map_of kvs k"
| "json_field k _ = None"

fun json_path :: "string list \<Rightarrow> json \<Rightarrow> json option" where
  "json_path [] j = Some j"
| "json_path (k # ks) j = (case json_field k j of None \<Rightarrow> None | Some j' \<Rightarrow> json_path ks j')"

section \<open>The four ways through a run\<close>

lemma cached_client: "initialize_azure_client w (Some (els, r)) = (els, r, Some (els, r))"
  by (simp add: initialize_azure_client_def)

lemma sample_client: "initialize_azure_client sample_world None = ([], Some 7, Some ([], Some 7))"
  by (simp add: initialize_azure_client_def initialize_azure_client_body_def
      sample_world_def sample_env_def)

lemma script_run_no_client:
  assumes "initialize_azure_client w c = (els0, None, c')"
  shows "script_run w wd c s =
           \<lparr>state = \<lparr>messages = Some (init_messages s),
                      chat_history = Some (init_chat_history s)\<rparr>,
            cache = c', elements = els0, requests = [], outcome = Stopped\<rparr>"
  using assms by (simp add: script_run_def)

lemma script_run_clear:
  assumes "initialize_azure_client w c = (els0, Some h, c')" and "clear_button wd"
  shows "script_run w wd c s =
           \<lparr>state = \<lparr>messages = Some [clear_system_message], chat_history = Some []\<rparr>,
            cache = c', elements = els0, requests = [], outcome = Rerun\<rparr>"
  using assms by (simp add: script_run_def)

lemma script_run_idle:
  assumes "initialize_azure_client w c = (els0, Some h, c')" and "\<not> clear_button wd"
    and "chat_input wd = None \<or> chat_input wd = Some []"
  shows "script_run w wd c s =
           \<lparr>state = \<lparr>messages = Some (init_messages s),
                      chat_history = Some (init_chat_history s)\<rparr>,
            cache = c',
            elements = els0 @ config_status w @ show_history (init_chat_history s),
            requests = [], outcome = footer_outcome wd (init_chat_history s)\<rparr>"
  using assms by (auto simp add: script_run_def Let_def)

lemma script_run_turn:
  assumes "initialize_azure_client w c = (els0, Some h, c')" and "\<not> clear_button wd"
    and "chat_input wd = Some p" and "p \<noteq> []"
  shows "script_run w wd c s =
           \<lparr>state =
              \<lparr>messages = Some (init_messages s @
                   [user_message p,
                    assistant_message
                      (snd (get_rag_response w h (init_messages s @ [user_message p])))]),
               chat_history = Some (init_chat_history s @
                   [user_message p,
                    assistant_message
                      (snd (get_rag_response w h (init_messages s @ [user_message p])))])\<rparr>,
            cache = c',
            elements = els0 @ config_status w @ show_history (init_chat_history s) @
               [StChatMessage ''user'' p,
                StChatMessage ''assistant''
                  (snd (get_rag_response w h (init_messages s @ [user_message p])))],
            requests = [(h, fst (get_rag_response w h (init_messages s @ [user_message p])))],
            outcome = Completed\<rparr>"
  using assms by (simp add: script_run_def Let_def footer_outcome_def split_beta)

text \<open>The first run of a session in the sample world.\<close>

lemma first_run:
  "script_run sample_world no_widgets None new_session =
      \<lparr>state = \<lparr>messages = Some [initial_system_message], chat_history = Some []\<rparr>,
       cache = Some ([], Some 7),
       elements = config_status sample_world, requests = [], outcome = Completed\<rparr>"
  by (simp add: script_run_idle [OF sample_client] no_widgets_def init_messages_def
      init_chat_history_def new_session_def show_history_def footer_outcome_def)

section \<open>Clearing the chat\<close>

text \<open>
  Claim C1 says that the clear action leaves exactly one message, the seed the session
  started with, and an empty displayed history. In the script the button handler
  writes a different system prompt from the one the session is seeded with. A session
  is opened in the sample world and the button is pressed in the next run: one system
  message and an empty history remain, but the message is the travel-assistant prompt
  of the handler, not the seed of line 84.
\<close>

theorem clear_reseeds_with_a_different_prompt:
  "messages (state (script_run sample_world no_widgets None new_session))
     = Some [initial_system_message]
   \<and> state (script_run sample_world clear_widgets
              (cache (script_run sample_world no_widgets None new_session))
              (state (script_run sample_world no_widgets None new_session)))
     = \<lparr>messages = Some [clear_system_message], chat_history = Some []\<rparr>
   \<and> clear_system_message \<noteq> initial_system_message"
proof -
  note first = first_run
  have second: "state (script_run sample_world clear_widgets (Some ([], Some 7))
       \<lparr>messages = Some [initial_system_message], chat_history = Some []\<rparr>)
       = \<lparr>messages = Some [clear_system_message], chat_history = Some []\<rparr>"
    by (simp add: script_run_clear [OF cached_client] clear_widgets_def)
  have differ: "clear_system_message \<noteq> initial_system_message"
    by (simp add: clear_system_message_def initial_system_message_def)
  from first second differ show ?thesis by simp
qed

section \<open>A failed request is folded into the conversation\<close>

lemma timeout_client:
  "initialize_azure_client timeout_world None = ([], Some 7, Some ([], Some 7))"
  by (simp add: initialize_azure_client_def initialize_azure_client_body_def
      timeout_world_def sample_world_def sample_env_def)

text \<open>
  Claim C2: when the completion call raises an exception whose message is \<open>m\<close>, the
  reply of the turn is the string \<^verbatim>\<open>"Error: "\<close> followed by \<open>m\<close>; this string is
  appended as the assistant message to both lists, it is the last bubble drawn, and
  the run reaches its last line (it neither stops nor raises).
\<close>

theorem request_failure_becomes_the_reply:
  assumes "initialize_azure_client w c = (els0, Some h, c')"
    and "\<not> clear_button wd" and "chat_input wd = Some p" and "p \<noteq> []"
    and "create w h \<lparr>model = getenv w ''CHAT_MODEL'',
                     req_messages = init_messages s @ [user_message p],
                     extra_body = rag_params w\<rparr> = Inl m"
  shows "snd (get_rag_response w h (init_messages s @ [user_message p])) = ''Error: '' @ m
       \<and> messages (state (script_run w wd c s))
           = Some (init_messages s @ [user_message p, assistant_message (''Error: '' @ m)])
       \<and> chat_history (state (script_run w wd c s))
           = Some (init_chat_history s @
                   [user_message p, assistant_message (''Error: '' @ m)])
       \<and> last (elements (script_run w wd c s)) = StChatMessage ''assistant'' (''Error: '' @ m)
       \<and> outcome (script_run w wd c s) = Completed"
proof -
  have reply:
    "snd (get_rag_response w h (init_messages s @ [user_message p])) = ''Error: '' @ m"
    using assms(5) by (simp add: get_rag_response_def)
  show ?thesis
    by (simp add: script_run_turn [OF assms(1-4)] reply)
qed

theorem request_failure_becomes_the_reply_witness:
  "snd (get_rag_response timeout_world 7 ([initial_system_message] @ [user_message ''hello'']))
     = ''Error: timeout''
   \<and> messages (state (script_run timeout_world (turn_widgets ''hello'') None new_session))
       = Some [initial_system_message, user_message ''hello'',
               assistant_message ''Error: timeout'']
   \<and> chat_history (state (script_run timeout_world (turn_widgets ''hello'') None new_session))
       = Some [user_message ''hello'', assistant_message ''Error: timeout'']
   \<and> last (elements (script_run timeout_world (turn_widgets ''hello'') None new_session))
       = StChatMessage ''assistant'' ''Error: timeout''
   \<and> outcome (script_run timeout_world (turn_widgets ''hello'') None new_session) = Completed"
proof -
  have a: "\<not> clear_button (turn_widgets ''hello'')" by (simp add: turn_widgets_def)
  have b: "chat_input (turn_widgets ''hello'') = Some ''hello''" by (simp add: turn_widgets_def)
  have c: "''hello'' \<noteq> []" by simp
  have d: "create timeout_world 7 \<lparr>model = getenv timeout_world ''CHAT_MODEL'',
                     req_messages = init_messages new_session @ [user_message ''hello''],
                     extra_body = rag_params timeout_world\<rparr> = Inl ''timeout''"
    by (simp add: timeout_world_def sample_world_def)
  show ?thesis
    using request_failure_becomes_the_reply [OF timeout_client a b c d]
    by (simp add: init_messages_def init_chat_history_def new_session_def)
qed

section \<open>A turn adds two messages\<close>

text \<open>
  Claim C3: in a turn (a client is available, the clear button is not pressed, the
  chat input holds a non-empty text) the message sequence handed to the completion
  call is one longer than the sequence the run started with and ends with the user
  message; after the call the stored sequence is two longer, ends with an
  assistant-role message and still begins with the old sequence. Nothing is assumed
  about the completion call, so this covers success and failure alike.
\<close>

theorem turn_grows_messages_by_two:
  assumes "initialize_azure_client w c = (els0, Some h, c')"
    and "\<not> clear_button wd" and "chat_input wd = Some p" and "p \<noteq> []"
  shows "map (\<lambda>hr. length (req_messages (snd hr))) (requests (script_run w wd c s))
           = [length (init_messages s) + 1]
       \<and> map (\<lambda>hr. last (req_messages (snd hr))) (requests (script_run w wd c s))
           = [user_message p]
       \<and> map_option length (messages (state (script_run w wd c s)))
           = Some (length (init_messages s) + 2)
       \<and> map_option (\<lambda>m. role (last m)) (messages (state (script_run w wd c s)))
           = Some ''assistant''
       \<and> map_option (take (length (init_messages s))) (messages (state (script_run w wd c s)))
           = Some (init_messages s)"
  by (simp add: script_run_turn [OF assms] get_rag_response_def Let_def assistant_message_def)

theorem turn_grows_messages_by_two_witness:
  "map (\<lambda>hr. length (req_messages (snd hr)))
       (requests (script_run timeout_world
          (turn_widgets ''What projects have you worked on?'') None new_session)) = [2]
   \<and> map_option length
       (messages (state (script_run timeout_world
          (turn_widgets ''What projects have you worked on?'') None new_session))) = Some 3
   \<and> map (\<lambda>hr. length (req_messages (snd hr)))
       (requests (script_run sample_world
          (turn_widgets ''What projects have you worked on?'') None new_session)) = [2]
   \<and> map_option length
       (messages (state (script_run sample_world
          (turn_widgets ''What projects have you worked on?'') None new_session))) = Some 3"
proof -
  let ?p = "''What projects have you worked on?''"
  have a: "\<not> clear_button (turn_widgets ?p)" by (simp add: turn_widgets_def)
  have b: "chat_input (turn_widgets ?p) = Some ?p" by (simp add: turn_widgets_def)
  have c: "?p \<noteq> []" by simp
  show ?thesis
    using turn_grows_messages_by_two [OF timeout_client a b c, of new_session]
          turn_grows_messages_by_two [OF sample_client a b c, of new_session]
    by (simp add: init_messages_def new_session_def del: map_option_eq_Some)
qed

section \<open>Missing configuration\<close>

lemma body_missing:
  assumes "\<not> truthy (getenv w ''OPEN_AI_ENDPOINT'') \<or> \<not> truthy (getenv w ''OPEN_AI_KEY'')"
  shows "initialize_azure_client_body w = ([missing_configuration], None)"
  using assms
  by (auto simp: initialize_azure_client_body_def truthy_def missing_configuration_def
      split: option.splits)

text \<open>
  Claim C5 says that the error shown when the endpoint or the key is absent describes
  which value is missing. The script shows one fixed text. With only the endpoint
  missing and with only the key missing, the page holds the same single error box,
  which names neither variable.
\<close>

theorem missing_value_is_not_named:
  "elements (script_run no_endpoint_world no_widgets None new_session)
     = [StError ''Missing Azure OpenAI configuration. Please check your .env file.'']
   \<and> elements (script_run no_key_world no_widgets None new_session)
     = [StError ''Missing Azure OpenAI configuration. Please check your .env file.'']
   \<and> truthy (getenv no_endpoint_world ''OPEN_AI_KEY'')
   \<and> \<not> truthy (getenv no_endpoint_world ''OPEN_AI_ENDPOINT'')
   \<and> \<not> truthy (getenv no_key_world ''OPEN_AI_KEY'')
   \<and> truthy (getenv no_key_world ''OPEN_AI_ENDPOINT'')"
proof -
  have e: "\<not> truthy (getenv no_endpoint_world ''OPEN_AI_ENDPOINT'')"
     "truthy (getenv no_endpoint_world ''OPEN_AI_KEY'')"
    by (simp_all add: no_endpoint_world_def sample_world_def sample_env_def truthy_def)
  have k: "\<not> truthy (getenv no_key_world ''OPEN_AI_KEY'')"
     "truthy (getenv no_key_world ''OPEN_AI_ENDPOINT'')"
    by (simp_all add: no_key_world_def sample_world_def sample_env_def truthy_def)
  have ie: "initialize_azure_client no_endpoint_world None
      = ([missing_configuration], None, Some ([missing_configuration], None))"
    using e by (simp add: initialize_azure_client_def body_missing)
  have ik: "initialize_azure_client no_key_world None
      = ([missing_configuration], None, Some ([missing_configuration], None))"
    using k by (simp add: initialize_azure_client_def body_missing)
  show ?thesis
    using e k by (simp add: script_run_no_client [OF ie] script_run_no_client [OF ik]
        missing_configuration_def)
qed

text \<open>
  Claim C5 as amended: when the endpoint or the key is absent (or empty) and the
  initialisation runs with nothing memoised yet, it returns no client and does not
  raise, the page shows the one fixed error box whichever value is missing, and the
  run stops there: no request is issued, neither list of the session gains a
  message, and nothing of the sidebar or the chat is drawn, whatever the widgets
  hold. This outcome is memoised: every later run with the table it left shows the
  same box and stops in the same way, whatever the environment, the widgets and the
  session are.
\<close>

theorem missing_configuration_halts_every_run:
  assumes "\<not> truthy (getenv w ''OPEN_AI_ENDPOINT'') \<or> \<not> truthy (getenv w ''OPEN_AI_KEY'')"
  shows "initialize_azure_client w None
           = ([missing_configuration], None, Some ([missing_configuration], None))
       \<and> script_run w wd None s =
           \<lparr>state = \<lparr>messages = Some (init_messages s),
                      chat_history = Some (init_chat_history s)\<rparr>,
            cache = Some ([missing_configuration], None),
            elements = [missing_configuration],
            requests = [], outcome = Stopped\<rparr>
       \<and> script_run w' wd' (cache (script_run w wd None s)) s' =
           \<lparr>state = \<lparr>messages = Some (init_messages s'),
                      chat_history = Some (init_chat_history s')\<rparr>,
            cache = Some ([missing_configuration], None),
            elements = [missing_configuration],
            requests = [], outcome = Stopped\<rparr>"
proof -
  have i: "initialize_azure_client w None
      = ([missing_configuration], None, Some ([missing_configuration], None))"
    using body_missing [OF assms] by (simp add: initialize_azure_client_def)
  have j: "initialize_azure_client w' (Some ([missing_configuration], None))
      = ([missing_configuration], None, Some ([missing_configuration], None))"
    by (rule cached_client)
  show ?thesis
    by (simp add: i script_run_no_client [OF i] script_run_no_client [OF j])
qed

theorem missing_configuration_halts_every_run_witness:
  "\<not> truthy (getenv no_key_world ''OPEN_AI_KEY'')
   \<and> initialize_azure_client no_key_world None
       = ([missing_configuration], None, Some ([missing_configuration], None))
   \<and> script_run no_key_world (turn_widgets ''hello'') None new_session =
           \<lparr>state = \<lparr>messages = Some [initial_system_message], chat_history = Some []\<rparr>,
            cache = Some ([missing_configuration], None),
            elements = [missing_configuration],
            requests = [], outcome = Stopped\<rparr>
   \<and> script_run sample_world (turn_widgets ''again'')
        (cache (script_run no_key_world (turn_widgets ''hello'') None new_session))
        \<lparr>messages = Some [initial_system_message], chat_history = Some []\<rparr> =
           \<lparr>state = \<lparr>messages = Some [initial_system_message], chat_history = Some []\<rparr>,
            cache = Some ([missing_configuration], None),
            elements = [missing_configuration],
            requests = [], outcome = Stopped\<rparr>"
proof -
  let ?s' = "\<lparr>messages = Some [initial_system_message], chat_history = Some []\<rparr>"
  have k: "\<not> truthy (getenv no_key_world ''OPEN_AI_KEY'')"
    by (simp add: no_key_world_def sample_world_def sample_env_def truthy_def)
  have n: "init_messages new_session = [initial_system_message]"
    "init_chat_history new_session = []"
    by (simp_all add: init_messages_def init_chat_history_def new_session_def)
  have n': "init_messages ?s' = [initial_system_message]" "init_chat_history ?s' = []"
    by (simp_all add: init_messages_def init_chat_history_def)
  note th = missing_configuration_halts_every_run [OF disjI2 [OF k],
        where wd = "turn_widgets ''hello''" and s = new_session and w' = sample_world
          and wd' = "turn_widgets ''again''" and s' = ?s', unfolded n n']
  from k th show ?thesis by blast
qed

section \<open>The configuration status panel\<close>

lemma config_status_lines:
  "config_status w =
     [status_line (''Azure OpenAI Endpoint'', getenv w ''OPEN_AI_ENDPOINT''),
      status_line (''Chat Model'', getenv w ''CHAT_MODEL''),
      status_line (''Embedding Model'', getenv w ''EMBEDDING_MODEL''),
      status_line (''Search Endpoint'', getenv w ''SEARCH_ENDPOINT''),
      status_line (''Index Name'', getenv w ''INDEX_NAME'')]"
  by (simp add: config_status_def config_items_def)

lemma is_success_status_line: "is_success (status_line (item, v)) = truthy v"
  by (simp add: status_line_def)

lemma no_keys_getenv:
  "getenv no_keys_world ''OPEN_AI_ENDPOINT'' = getenv sample_world ''OPEN_AI_ENDPOINT''"
  "getenv no_keys_world ''CHAT_MODEL'' = getenv sample_world ''CHAT_MODEL''"
  "getenv no_keys_world ''EMBEDDING_MODEL'' = getenv sample_world ''EMBEDDING_MODEL''"
  "getenv no_keys_world ''SEARCH_ENDPOINT'' = getenv sample_world ''SEARCH_ENDPOINT''"
  "getenv no_keys_world ''INDEX_NAME'' = getenv sample_world ''INDEX_NAME''"
  "getenv no_keys_world ''OPEN_AI_KEY'' = None"
  "getenv no_keys_world ''SEARCH_KEY'' = None"
  by (simp_all add: no_keys_world_def sample_world_def)

lemma sample_keys:
  "getenv sample_world ''OPEN_AI_KEY'' = Some ''key-1''"
  "getenv sample_world ''SEARCH_KEY'' = Some ''key-2''"
  by (simp_all add: sample_world_def sample_env_def)

lemma less_5_cases: "i < (5::nat) \<Longrightarrow> i = 0 \<or> i = 1 \<or> i = 2 \<or> i = 3 \<or> i = 4"
  by arith

text \<open>
  Claim C6 says that the panel has a line for each of seven environment values,
  the API key and the search API key among them. \<open>config_items\<close> has five entries and
  neither key is one of them: the panel has five lines, and removing both keys from
  the environment leaves it unchanged.
\<close>

theorem status_panel_omits_the_keys:
  "length (config_status sample_world) = 5
   \<and> config_status no_keys_world = config_status sample_world
   \<and> getenv no_keys_world ''OPEN_AI_KEY'' = None \<and> getenv no_keys_world ''SEARCH_KEY'' = None
   \<and> getenv sample_world ''OPEN_AI_KEY'' = Some ''key-1''
   \<and> getenv sample_world ''SEARCH_KEY'' = Some ''key-2''"
  by (simp add: config_status_lines no_keys_getenv sample_keys)

text \<open>
  Claim C6 as amended: the panel has exactly five lines, one for each of the endpoint
  URL, the chat model, the embedding model, the search endpoint and the index name,
  in this order. A line is a success box exactly when its own variable is set to a
  non-empty value, and a line is the same in two environments that agree on its own
  variable, whatever the other variables hold.
\<close>

theorem status_panel_five_independent_lines:
  "length (config_status w) = 5
   \<and> map is_success (config_status w) = map (\<lambda>v. truthy (getenv w v)) status_vars
   \<and> (\<forall>i<5. getenv w (status_vars ! i) = getenv w' (status_vars ! i)
         \<longrightarrow> config_status w ! i = config_status w' ! i)"
proof -
  have len: "length (config_status w) = 5"
    by (simp add: config_status_lines)
  have marks: "map is_success (config_status w) = map (\<lambda>v. truthy (getenv w v)) status_vars"
    by (simp add: config_status_lines is_success_status_line status_vars_def)
  have indep: "getenv w (status_vars ! i) = getenv w' (status_vars ! i)
         \<Longrightarrow> config_status w ! i = config_status w' ! i" if "i < 5" for i
    using less_5_cases [OF that]
    by (elim disjE) (simp_all add: config_status_lines status_vars_def)
  from len marks indep show ?thesis by blast
qed

theorem status_panel_five_independent_lines_witness:
  "length (config_status no_keys_world) = 5
   \<and> map is_success (config_status no_keys_world) = [True, True, True, True, True]
   \<and> getenv no_keys_world (status_vars ! 3) = getenv sample_world (status_vars ! 3)
   \<and> config_status no_keys_world ! 3 = config_status sample_world ! 3"
proof -
  have same: "getenv no_keys_world (status_vars ! 3) = getenv sample_world (status_vars ! 3)"
    by (simp add: status_vars_def no_keys_getenv)
  have vals: "map (\<lambda>v. truthy (getenv no_keys_world v)) status_vars
      = [True, True, True, True, True]"
    by (simp add: status_vars_def no_keys_getenv sample_world_def sample_env_def truthy_def)
  have three: "(3::nat) < 5" by simp
  show ?thesis
    using status_panel_five_independent_lines [of no_keys_world sample_world] same vals three
    by auto
qed

section \<open>The memoised client\<close>

text \<open>
  Claim C8: once a call of the decorated function has returned a client, every later
  call returns that same client and leaves the table as it is, whatever the
  environment and the constructor have become: neither is consulted again.
\<close>

theorem client_is_memoised:
  assumes "initialize_azure_client w c = (els, Some h, c')"
  shows "initialize_azure_client w' c' = (els, Some h, c')"
  using assms
  by (auto simp: initialize_azure_client_def split: option.splits prod.splits)

theorem client_is_memoised_witness:
  "initialize_azure_client sample_world None = ([], Some 7, Some ([], Some 7))
   \<and> initialize_azure_client
        \<lparr>getenv = Map.empty, AzureOpenAI = (\<lambda>_. Inl ''unreachable''),
         create = (\<lambda>_ _. Inr [])\<rparr>
        (Some ([], Some 7)) = ([], Some 7, Some ([], Some 7))"
  using client_is_memoised [OF sample_client,
      of "\<lparr>getenv = Map.empty, AzureOpenAI = (\<lambda>_. Inl ''unreachable''),
           create = (\<lambda>_ _. Inr [])\<rparr>"]
    sample_client
  by simp

section \<open>What a turn sends\<close>




lemma accumulated_snoc: "accumulated h acc (runs @ [x]) = after_run h (accumulated h acc runs) x"
  by (simp add: accumulated_def)














text \<open>
  Claim C9: the request of a turn consists of the full message sequence and a
  retrieval block with exactly one data source, of type \<^verbatim>\<open>azure_search\<close>, whose
  parameters hold the search endpoint, the index name, an \<^verbatim>\<open>api_key\<close>
  authentication with the search key, the query type \<^verbatim>\<open>vector\<close> and an embedding
  dependency naming the embedding deployment.
\<close>

theorem request_carries_the_retrieval_block:
  assumes "initialize_azure_client w c = (els0, Some h, c')"
    and "\<not> clear_button wd" and "chat_input wd = Some p" and "p \<noteq> []"
  shows "\<exists>req ds.
           requests (script_run w wd c s) = [(h, req)]
         \<and> req_messages req = init_messages s @ [user_message p]
         \<and> json_field ''data_sources'' (extra_body req) = Some (JList [ds])
         \<and> json_field ''type'' ds = Some (JStr ''azure_search'')
         \<and> json_path [''parameters'', ''endpoint''] ds
             = Some (json_of (getenv w ''SEARCH_ENDPOINT''))
         \<and> json_path [''parameters'', ''index_name''] ds
             = Some (json_of (getenv w ''INDEX_NAME''))
         \<and> json_path [''parameters'', ''authentication'', ''type''] ds
             = Some (JStr ''api_key'')
         \<and> json_path [''parameters'', ''authentication'', ''key''] ds
             = Some (json_of (getenv w ''SEARCH_KEY''))
         \<and> json_path [''parameters'', ''query_type''] ds = Some (JStr ''vector'')
         \<and> json_path [''parameters'', ''embedding_dependency'', ''type''] ds
             = Some (JStr ''deployment_name'')
         \<and> json_path [''parameters'', ''embedding_dependency'', ''deployment_name''] ds
             = Some (json_of (getenv w ''EMBEDDING_MODEL''))"
  by (simp add: script_run_turn [OF assms] get_rag_response_def rag_params_def Let_def)

theorem request_carries_the_retrieval_block_witness:
  "\<exists>req ds.
           requests (script_run sample_world (turn_widgets ''hello'') None new_session) = [(7, req)]
         \<and> req_messages req = [initial_system_message, user_message ''hello'']
         \<and> json_field ''data_sources'' (extra_body req) = Some (JList [ds])
         \<and> json_field ''type'' ds = Some (JStr ''azure_search'')
         \<and> json_path [''parameters'', ''endpoint''] ds
             = Some (JStr ''https://example.search.windows.net'')
         \<and> json_path [''parameters'', ''index_name''] ds = Some (JStr ''projects'')
         \<and> json_path [''parameters'', ''authentication'', ''type''] ds
             = Some (JStr ''api_key'')
         \<and> json_path [''parameters'', ''authentication'', ''key''] ds = Some (JStr ''key-2'')
         \<and> json_path [''parameters'', ''query_type''] ds = Some (JStr ''vector'')
         \<and> json_path [''parameters'', ''embedding_dependency'', ''type''] ds
             = Some (JStr ''deployment_name'')
         \<and> json_path [''parameters'', ''embedding_dependency'', ''deployment_name''] ds
             = Some (JStr ''text-embedding-ada-002'')"
proof -
  have a: "\<not> clear_button (turn_widgets ''hello'')" by (simp add: turn_widgets_def)
  have b: "chat_input (turn_widgets ''hello'') = Some ''hello''" by (simp add: turn_widgets_def)
  have c: "''hello'' \<noteq> []" by simp
  have env: "json_of (getenv sample_world ''SEARCH_ENDPOINT'') = JStr ''https://example.search.windows.net''"
    "json_of (getenv sample_world ''INDEX_NAME'') = JStr ''projects''"
    "json_of (getenv sample_world ''SEARCH_KEY'') = JStr ''key-2''"
    "json_of (getenv sample_world ''EMBEDDING_MODEL'') = JStr ''text-embedding-ada-002''"
    by (simp_all add: json_of_def sample_world_def sample_env_def)
  have m: "init_messages new_session @ [user_message ''hello'']
      = [initial_system_message, user_message ''hello'']"
    by (simp add: init_messages_def new_session_def)
  show ?thesis
    using request_carries_the_retrieval_block [OF sample_client a b c, of new_session]
    unfolding env m .
qed

section \<open>When the environment is read\<close>

text \<open>
  Claim C7 says that no operation of the conversation loop reads an environment value
  after initialisation. \<open>get_rag_response\<close> calls \<^verbatim>\<open>os.getenv\<close> at every turn: a
  session is opened with the chat model \<^verbatim>\<open>gpt-4o\<close>, the variable then changes, and
  the request of the next turn names the new model.
\<close>

theorem turn_uses_the_current_environment:
  "getenv sample_world ''CHAT_MODEL'' = Some ''gpt-4o''
   \<and> map (\<lambda>hr. model (snd hr))
       (requests (script_run other_model_world (turn_widgets ''hello'')
          (cache (script_run sample_world no_widgets None new_session))
          (state (script_run sample_world no_widgets None new_session))))
     = [Some ''gpt-35-turbo'']"
proof -
  have a: "\<not> clear_button (turn_widgets ''hello'')" by (simp add: turn_widgets_def)
  have b: "chat_input (turn_widgets ''hello'') = Some ''hello''" by (simp add: turn_widgets_def)
  have c: "''hello'' \<noteq> []" by simp
  have g: "getenv sample_world ''CHAT_MODEL'' = Some ''gpt-4o''"
    by (simp add: sample_world_def sample_env_def)
  have o: "getenv other_model_world ''CHAT_MODEL'' = Some ''gpt-35-turbo''"
    by (simp add: other_model_world_def sample_world_def)
  show ?thesis
    by (simp add: first_run script_run_turn [OF cached_client a b c] get_rag_response_def
        Let_def g o)
qed

lemma json_of_inj: "json_of a = json_of b \<longleftrightarrow> a = b"
  by (cases a; cases b) (simp_all add: json_of_def)

lemma rag_params_eq:
  "rag_params w = rag_params w' \<longleftrightarrow>
     getenv w ''EMBEDDING_MODEL'' = getenv w' ''EMBEDDING_MODEL''
   \<and> getenv w ''SEARCH_ENDPOINT'' = getenv w' ''SEARCH_ENDPOINT''
   \<and> getenv w ''SEARCH_KEY'' = getenv w' ''SEARCH_KEY''
   \<and> getenv w ''INDEX_NAME'' = getenv w' ''INDEX_NAME''"
  by (auto simp: rag_params_def Let_def json_of_inj)

lemma key_is_not_read_again:
  "config_status (w\<lparr>getenv := (getenv w)(''OPEN_AI_KEY'' := v), AzureOpenAI := f\<rparr>)
     = config_status w"
  "get_rag_response (w\<lparr>getenv := (getenv w)(''OPEN_AI_KEY'' := v), AzureOpenAI := f\<rparr>) h m
     = get_rag_response w h m"
proof -
  let ?w2 = "w\<lparr>getenv := (getenv w)(''OPEN_AI_KEY'' := v), AzureOpenAI := f\<rparr>"
  have g: "getenv ?w2 ''OPEN_AI_ENDPOINT'' = getenv w ''OPEN_AI_ENDPOINT''"
    "getenv ?w2 ''CHAT_MODEL'' = getenv w ''CHAT_MODEL''"
    "getenv ?w2 ''EMBEDDING_MODEL'' = getenv w ''EMBEDDING_MODEL''"
    "getenv ?w2 ''SEARCH_ENDPOINT'' = getenv w ''SEARCH_ENDPOINT''"
    "getenv ?w2 ''SEARCH_KEY'' = getenv w ''SEARCH_KEY''"
    "getenv ?w2 ''INDEX_NAME'' = getenv w ''INDEX_NAME''"
    by simp_all
  have cr: "create ?w2 = create w" by simp
  show "config_status ?w2 = config_status w"
    by (simp only: config_status_lines g)
  have r: "rag_params ?w2 = rag_params w"
    by (simp only: rag_params_eq g)
  show "get_rag_response ?w2 h m = get_rag_response w h m"
    by (simp only: get_rag_response_def Let_def r g cr)
qed

text \<open>
  Claim C7 as amended: only what the memoised client holds is read once. With a
  client in the table, a turn builds its request from the environment as it is during
  that run: the model is the current \<^verbatim>\<open>CHAT_MODEL\<close>, and the retrieval block is
  determined by, and determines, the current \<^verbatim>\<open>EMBEDDING_MODEL\<close>,
  \<^verbatim>\<open>SEARCH_ENDPOINT\<close>, \<^verbatim>\<open>SEARCH_KEY\<close> and \<^verbatim>\<open>INDEX_NAME\<close>. The run does not
  depend on \<^verbatim>\<open>OPEN_AI_KEY\<close> or on the client constructor any more.
\<close>

theorem only_the_client_is_read_once:
  assumes "c = Some (els, Some h)"
    and "\<not> clear_button wd" and "chat_input wd = Some p" and "p \<noteq> []"
  shows "map (\<lambda>hr. (fst hr, model (snd hr), extra_body (snd hr))) (requests (script_run w wd c s))
           = [(h, getenv w ''CHAT_MODEL'', rag_params w)]
       \<and> (rag_params w = rag_params w') =
           (getenv w ''EMBEDDING_MODEL'' = getenv w' ''EMBEDDING_MODEL''
           \<and> getenv w ''SEARCH_ENDPOINT'' = getenv w' ''SEARCH_ENDPOINT''
           \<and> getenv w ''SEARCH_KEY'' = getenv w' ''SEARCH_KEY''
           \<and> getenv w ''INDEX_NAME'' = getenv w' ''INDEX_NAME'')
       \<and> script_run (w\<lparr>getenv := (getenv w)(''OPEN_AI_KEY'' := v), AzureOpenAI := f\<rparr>) wd c s
           = script_run w wd c s"
proof -
  have i: "initialize_azure_client w c = (els, Some h, c)" for w
    using assms(1) by (simp add: cached_client)
  have one: "map (\<lambda>hr. (fst hr, model (snd hr), extra_body (snd hr)))
      (requests (script_run w wd c s)) = [(h, getenv w ''CHAT_MODEL'', rag_params w)]"
    by (simp add: script_run_turn [OF i assms(2-4)] get_rag_response_def Let_def)
  have three: "script_run (w\<lparr>getenv := (getenv w)(''OPEN_AI_KEY'' := v), AzureOpenAI := f\<rparr>) wd c s
           = script_run w wd c s"
    by (simp only: script_run_turn [OF i assms(2-4)] key_is_not_read_again)
  from one three rag_params_eq [of w w'] show ?thesis by simp
qed

theorem only_the_client_is_read_once_witness:
  "map (\<lambda>hr. (fst hr, model (snd hr), extra_body (snd hr)))
      (requests (script_run other_model_world (turn_widgets ''hello'') (Some ([], Some 7))
         \<lparr>messages = Some [initial_system_message], chat_history = Some []\<rparr>))
     = [(7, Some ''gpt-35-turbo'', rag_params sample_world)]
   \<and> script_run (other_model_world\<lparr>getenv := (getenv other_model_world)(''OPEN_AI_KEY'' := None),
                                   AzureOpenAI := (\<lambda>_. Inl ''refused'')\<rparr>)
        (turn_widgets ''hello'') (Some ([], Some 7))
        \<lparr>messages = Some [initial_system_message], chat_history = Some []\<rparr>
     = script_run other_model_world (turn_widgets ''hello'') (Some ([], Some 7))
        \<lparr>messages = Some [initial_system_message], chat_history = Some []\<rparr>"
proof -
  have c: "Some ([], Some 7) = Some ([] :: element list, Some (7 :: handle))" by simp
  have a: "\<not> clear_button (turn_widgets ''hello'')" by (simp add: turn_widgets_def)
  have b: "chat_input (turn_widgets ''hello'') = Some ''hello''" by (simp add: turn_widgets_def)
  have n: "''hello'' \<noteq> []" by simp
  have o: "getenv other_model_world ''CHAT_MODEL'' = Some ''gpt-35-turbo''"
    by (simp add: other_model_world_def sample_world_def)
  have g: "getenv other_model_world ''EMBEDDING_MODEL'' = getenv sample_world ''EMBEDDING_MODEL''"
    "getenv other_model_world ''SEARCH_ENDPOINT'' = getenv sample_world ''SEARCH_ENDPOINT''"
    "getenv other_model_world ''SEARCH_KEY'' = getenv sample_world ''SEARCH_KEY''"
    "getenv other_model_world ''INDEX_NAME'' = getenv sample_world ''INDEX_NAME''"
    by (simp_all add: other_model_world_def sample_world_def)
  show ?thesis
    using only_the_client_is_read_once [OF c a b n, where w = other_model_world
        and s = "\<lparr>messages = Some [initial_system_message], chat_history = Some []\<rparr>"
        and w' = sample_world and v = None and f = "\<lambda>_. Inl ''refused''"] g
    by (simp add: o)
qed

section \<open>The two lists of the session\<close>

lemma lockstep_script_run:
  assumes "s = new_session \<or> lockstep s"
  shows "lockstep (state (script_run w wd c s))"
proof -
  have base: "length (init_messages s) = length (init_chat_history s) + 1
      \<and> list_all (\<lambda>x. role x \<noteq> ''system'') (init_chat_history s)"
    using assms
    by (auto simp: lockstep_def new_session_def init_messages_def init_chat_history_def
        split: option.splits)
  obtain els0 cl c' where i: "initialize_azure_client w c = (els0, cl, c')"
    by (cases "initialize_azure_client w c") auto
  show ?thesis
  proof (cases cl)
    case None
    with i base show ?thesis
      by (simp add: script_run_no_client lockstep_def)
  next
    case (Some h)
    note cl = this
    show ?thesis
    proof (cases "clear_button wd")
      case True
      with i cl show ?thesis
        by (simp add: script_run_clear lockstep_def)
    next
      case False
      note nc = this
      show ?thesis
      proof (cases "chat_input wd = None \<or> chat_input wd = Some []")
        case True
        with i cl nc base show ?thesis
          by (simp add: script_run_idle lockstep_def)
      next
        case False
        then obtain p where p: "chat_input wd = Some p" "p \<noteq> []"
          by (cases "chat_input wd") auto
        from i cl have i': "initialize_azure_client w c = (els0, Some h, c')" by simp
        show ?thesis
          using base
          by (simp add: script_run_turn [OF i' nc p] lockstep_def user_message_def
              assistant_message_def)
      qed
    qed
  qed
qed

lemma lockstep_session_runs:
  assumes "s = new_session \<or> lockstep s"
  shows "list_all (\<lambda>r. lockstep (state r)) (session_runs c s runs)"
  using assms
proof (induction runs arbitrary: c s)
  case Nil
  then show ?case by simp
next
  case (Cons a runs)
  obtain w wd where a: "a = (w, wd)" by (cases a)
  have l: "lockstep (state (script_run w wd c s))"
    using Cons.prems by (rule lockstep_script_run)
  show ?case
    using l Cons.IH [of "state (script_run w wd c s)" "cache (script_run w wd c s)"]
    by (simp add: a Let_def)
qed

text \<open>
  Claim C10: in every session, whatever the runs are (first run, turns, clears, idle
  runs, runs stopped for want of a client) and whatever the outside does, each run
  leaves the API message sequence exactly one longer than the displayed history, and
  the displayed history without any system-role message.
\<close>

theorem session_lists_stay_in_lockstep:
  "list_all (\<lambda>r. lockstep (state r)) (session_runs c new_session runs)"
  by (rule lockstep_session_runs) simp

theorem session_lists_stay_in_lockstep_witness:
  "list_all (\<lambda>r. lockstep (state r))
     (session_runs None new_session
        [(sample_world, no_widgets), (timeout_world, turn_widgets ''hello''),
         (sample_world, clear_widgets), (no_key_world, no_widgets)])"
  by (rule session_lists_stay_in_lockstep)

end
